theory Spec2Isabelle
  imports Complex_Main "HOL-Library.AList"
begin

section \<open>Python values\<close>

text \<open>
  The values that travel through \<^verbatim>\<open>mcp_client.py\<close> are the ones JSON can carry:
  the arguments of a call are serialised into the request, the body of a response is
  what \<^verbatim>\<open>response.json()\<close> parses. A Python float is kept by its real value (both
  zeros are \<open>Finite 0\<close>); the three values that have none are constructors of their own.
  A \<^verbatim>\<open>dict\<close> is an association list in insertion order, looked up with \<open>map_of\<close>.
\<close>

datatype pyfloat = Finite real | PosInf | NegInf | NaN

datatype json =
    JNull
  | JBool bool
  | JInt int
  | JFloat pyfloat
  | JStr string
  | JList "json list"
  | JObj "(string \<times> json) list"

type_synonym dict = "(string \<times> json) list"

text \<open>Python's truth value of an object, as \<^verbatim>\<open>if x:\<close>, \<^verbatim>\<open>not x\<close> and \<^verbatim>\<open>x or y\<close> test it.\<close>

fun truthy :: "json \<Rightarrow> bool" where
  "truthy JNull = False"
| "truthy (JBool b) = b"
| "truthy (JInt i) = (i \<noteq> 0)"
| "truthy (JFloat f) = (f \<noteq> Finite 0)"
| "truthy (JStr s) = (s \<noteq> [])"
| "truthy (JList xs) = (xs \<noteq> [])"
| "truthy (JObj kvs) = (kvs \<noteq> [])"

text \<open>\<^verbatim>\<open>d.get(k, default)\<close>.\<close>

definition dict_get :: "dict \<Rightarrow> string \<Rightarrow> json \<Rightarrow> json" where
  "dict_get d k dflt = (case map_of d k of None \<Rightarrow> dflt | Some v \<Rightarrow> v)"

text \<open>
  \<^verbatim>\<open>d[k] = v\<close> is \<open>AList.update k v d\<close>: an existing key keeps its place and takes
  the new value, a new key goes to the end. \<^verbatim>\<open>{..., **kwargs}\<close> stores the entries of
  \<^verbatim>\<open>kwargs\<close> one after the other into the literal before it.
\<close>

definition dict_unpack :: "dict \<Rightarrow> dict \<Rightarrow> dict" where
  "dict_unpack base kwargs = foldl (\<lambda>d (k, v). AList.update k v d) base kwargs"

text \<open>A parameter with a default value: \<open>None\<close> is the caller leaving it out.\<close>

definition or_default :: "'a option \<Rightarrow> 'a \<Rightarrow> 'a" where
  "or_default given dflt = (case given of None \<Rightarrow> dflt | Some v \<Rightarrow> v)"

subsection \<open>Formatting\<close>

function str_nat :: "nat \<Rightarrow> string" where
  "str_nat n =
     (if n < 10 then [''0123456789'' ! n]
      else str_nat (n div 10) @ [''0123456789'' ! (n mod 10)])"
  by pat_completeness auto
termination
  by (relation "measure (\<lambda>n. n)") auto

declare str_nat.simps [simp del]

definition str_int :: "int \<Rightarrow> string" where
  "str_int i = (if i < 0 then CHR ''-'' # str_nat (nat (- i)) else str_nat (nat i))"

text \<open>
  \<^verbatim>\<open>f"{v}"\<close> formats \<^verbatim>\<open>v\<close> with \<^verbatim>\<open>str\<close>. A string is itself, \<^verbatim>\<open>None\<close> and the
  booleans are their names, an integer is its decimal numeral. For a float, a list or a
  dict \<^verbatim>\<open>str\<close> is the interpreter's \<^verbatim>\<open>repr\<close>, which the model takes as the
  parameter \<open>rp\<close>.
\<close>

fun py_str :: "(json \<Rightarrow> string) \<Rightarrow> json \<Rightarrow> string" where
  "py_str rp (JStr s) = s"
| "py_str rp JNull = ''None''"
| "py_str rp (JBool b) = (if b then ''True'' else ''False'')"
| "py_str rp (JInt i) = str_int i"
| "py_str rp v = rp v"

text \<open>\<^verbatim>\<open>s.rstrip(chars)\<close>: drop from the end every character that is in \<^verbatim>\<open>chars\<close>.\<close>

definition rstrip :: "string \<Rightarrow> string \<Rightarrow> string" where
  "rstrip chars s = rev (dropWhile (\<lambda>c. c \<in> set chars) (rev s))"

section \<open>The HTTP channel\<close>

text \<open>
  What \<^verbatim>\<open>httpx.AsyncClient(timeout=...).post(url, json=...)\<close> is given, and what it
  gives back: the status code, the text of the body, and the value \<^verbatim>\<open>response.json()\<close>
  returns (\<open>None\<close> when the body is not JSON and \<^verbatim>\<open>json()\<close> raises).
\<close>

record http_request =
  req_method :: string
  req_url :: string
  req_json :: json
  req_timeout :: real

record http_response =
  status_code :: int
  body_text :: string
  body_json :: "json option"

text \<open>
  Everything the client can raise. \<open>PyException\<close> is the builtin \<^verbatim>\<open>Exception\<close> with
  its message; \<open>TransportError\<close> stands for whatever \<^verbatim>\<open>post\<close> itself raises (a
  timeout, a refused connection); \<open>JSONDecodeError\<close> comes from \<^verbatim>\<open>response.json()\<close>,
  \<open>AttributeError\<close> from \<^verbatim>\<open>.get\<close> on a body that is not a dict.
\<close>

datatype exn =
    PyException string
  | TransportError string
  | JSONDecodeError
  | AttributeError

text \<open>
  The world outside the client: how the bridge answers a request, and the
  interpreter's \<^verbatim>\<open>repr\<close>.
\<close>

record world =
  bridge :: "http_request \<Rightarrow> exn + http_response"
  py_repr :: "json \<Rightarrow> string"

section \<open>MCPGitClient\<close>

record client =
  backend_url :: string
  timeout :: real

definition MCPGitClient :: "string option \<Rightarrow> client" where
  "MCPGitClient given_url =
     \<lparr>backend_url = rstrip ''/'' (or_default given_url ''http://localhost:8000''),
      timeout = 30\<rparr>"

text \<open>The \<^verbatim>\<open>json=\<close> argument of the post; \<^verbatim>\<open>args or {}\<close> keeps a truthy \<^verbatim>\<open>args\<close>.\<close>

definition request_json :: "string \<Rightarrow> dict option \<Rightarrow> json" where
  "request_json operation args =
     JObj [(''tool'', JStr ''git_tool''),
           (''arguments'',
              JObj [(''operation'', JStr operation),
                    (''args'',
                       JObj (case args of
                               None \<Rightarrow> []
                             | Some a \<Rightarrow> if truthy (JObj a) then a else []))]),
           (''context'',
              JObj [(''user_id'', JStr ''ai-tool-calling''), (''user_role'', JStr ''user'')])]"

definition build_request :: "client \<Rightarrow> string \<Rightarrow> dict option \<Rightarrow> http_request" where
  "build_request self operation args =
     \<lparr>req_method = ''POST'',
      req_url = backend_url self @ ''/api/mcp-bridge/tools/call'',
      req_json = request_json operation args,
      req_timeout = timeout self\<rparr>"

text \<open>What the body of \<^verbatim>\<open>_call_mcp_tool\<close> does with the response it got.\<close>

definition read_response :: "world \<Rightarrow> http_response \<Rightarrow> exn + json" where
  "read_response w response =
     (if status_code response \<noteq> 200 then
        Inl (PyException
               (''MCP bridge returned '' @ str_int (status_code response) @ '': ''
                  @ body_text response))
      else
        (case body_json response of
           None \<Rightarrow> Inl JSONDecodeError
         | Some (JObj result) \<Rightarrow>
             if \<not> truthy (dict_get result ''success'' (JBool False)) then
               Inl (PyException
                      (''MCP tool call failed: ''
                         @ py_str (py_repr w) (dict_get result ''error'' (JStr ''Unknown error''))))
             else Inr (dict_get result ''result'' (JObj []))
         | Some _ \<Rightarrow> Inl AttributeError))"

text \<open>
  \<^verbatim>\<open>_call_mcp_tool\<close>. The last argument is the list of requests sent so far, returned
  with the new request added. The \<^verbatim>\<open>except\<close> clause logs and raises the same exception
  again, so the outcome is the one of the \<^verbatim>\<open>try\<close> block.
\<close>

definition call_mcp_tool ::
  "world \<Rightarrow> client \<Rightarrow> string \<Rightarrow> dict option \<Rightarrow> http_request list
     \<Rightarrow> (exn + json) \<times> http_request list" where
  "call_mcp_tool w self operation args sent =
     (let req = build_request self operation args in
      (case bridge w req of
         Inl e \<Rightarrow> Inl e
       | Inr response \<Rightarrow> read_response w response,
       sent @ [req]))"

subsection \<open>The per-operation helpers\<close>

text \<open>
  Each helper takes its named parameters (an \<open>option\<close> where the source gives a
  default) and \<open>kwargs\<close>, the extra keyword arguments Python collects in \<^verbatim>\<open>**kwargs\<close>.
  A parameter whose name is also the name of a helper carries the suffix \<open>_arg\<close>.
\<close>

type_synonym 'a call = "http_request list \<Rightarrow> (exn + 'a) \<times> http_request list"

definition status :: "world \<Rightarrow> client \<Rightarrow> dict \<Rightarrow> json call" where
  "status w self kwargs = call_mcp_tool w self ''status'' (Some kwargs)"

definition branch :: "world \<Rightarrow> client \<Rightarrow> dict \<Rightarrow> json call" where
  "branch w self kwargs = call_mcp_tool w self ''branch'' (Some kwargs)"

definition log_op :: "world \<Rightarrow> client \<Rightarrow> int option \<Rightarrow> dict \<Rightarrow> json call" where
  "log_op w self limit kwargs =
     call_mcp_tool w self ''log''
       (Some (dict_unpack [(''limit'', JInt (or_default limit 10))] kwargs))"

definition diff ::
  "world \<Rightarrow> client \<Rightarrow> bool option \<Rightarrow> int option \<Rightarrow> int option \<Rightarrow> dict \<Rightarrow> json call" where
  "diff w self staged page page_size kwargs =
     call_mcp_tool w self ''diff''
       (Some (dict_unpack
                [(''staged'', JBool (or_default staged False)),
                 (''page'', JInt (or_default page 1)),
                 (''page_size'', JInt (or_default page_size 1000))]
                kwargs))"

definition add :: "world \<Rightarrow> client \<Rightarrow> string list \<Rightarrow> dict \<Rightarrow> json call" where
  "add w self files kwargs =
     call_mcp_tool w self ''add''
       (Some (dict_unpack [(''files'', JList (map JStr files))] kwargs))"

definition commit :: "world \<Rightarrow> client \<Rightarrow> string \<Rightarrow> dict \<Rightarrow> json call" where
  "commit w self message kwargs =
     call_mcp_tool w self ''commit'' (Some (dict_unpack [(''message'', JStr message)] kwargs))"

definition push ::
  "world \<Rightarrow> client \<Rightarrow> string option \<Rightarrow> string option \<Rightarrow> bool option \<Rightarrow> dict \<Rightarrow> json call" where
  "push w self remote_arg branch_arg force kwargs =
     (let args = dict_unpack
                   [(''remote'', JStr (or_default remote_arg ''origin'')),
                    (''force'', JBool (or_default force False))]
                   kwargs;
          args = (case branch_arg of
                    None \<Rightarrow> args
                  | Some b \<Rightarrow>
                      if truthy (JStr b) then AList.update ''branch'' (JStr b) args else args)
      in call_mcp_tool w self ''push'' (Some args))"

definition pull ::
  "world \<Rightarrow> client \<Rightarrow> string option \<Rightarrow> string option \<Rightarrow> dict \<Rightarrow> json call" where
  "pull w self remote_arg branch_arg kwargs =
     (let args = dict_unpack [(''remote'', JStr (or_default remote_arg ''origin''))] kwargs;
          args = (case branch_arg of
                    None \<Rightarrow> args
                  | Some b \<Rightarrow>
                      if truthy (JStr b) then AList.update ''branch'' (JStr b) args else args)
      in call_mcp_tool w self ''pull'' (Some args))"

definition checkout :: "world \<Rightarrow> client \<Rightarrow> string \<Rightarrow> dict \<Rightarrow> json call" where
  "checkout w self branch_arg kwargs =
     call_mcp_tool w self ''checkout'' (Some (dict_unpack [(''branch'', JStr branch_arg)] kwargs))"

definition merge :: "world \<Rightarrow> client \<Rightarrow> string \<Rightarrow> dict \<Rightarrow> json call" where
  "merge w self branch_arg kwargs =
     call_mcp_tool w self ''merge'' (Some (dict_unpack [(''branch'', JStr branch_arg)] kwargs))"

definition rebase :: "world \<Rightarrow> client \<Rightarrow> string \<Rightarrow> dict \<Rightarrow> json call" where
  "rebase w self branch_arg kwargs =
     call_mcp_tool w self ''rebase'' (Some (dict_unpack [(''branch'', JStr branch_arg)] kwargs))"

definition reset :: "world \<Rightarrow> client \<Rightarrow> string option \<Rightarrow> dict \<Rightarrow> json call" where
  "reset w self mode kwargs =
     call_mcp_tool w self ''reset''
       (Some (dict_unpack [(''mode'', JStr (or_default mode ''mixed''))] kwargs))"

definition stash :: "world \<Rightarrow> client \<Rightarrow> string option \<Rightarrow> dict \<Rightarrow> json call" where
  "stash w self action kwargs =
     call_mcp_tool w self ''stash''
       (Some (dict_unpack [(''action'', JStr (or_default action ''push''))] kwargs))"

definition tag :: "world \<Rightarrow> client \<Rightarrow> string \<Rightarrow> dict \<Rightarrow> json call" where
  "tag w self name kwargs =
     call_mcp_tool w self ''tag'' (Some (dict_unpack [(''name'', JStr name)] kwargs))"

definition remote :: "world \<Rightarrow> client \<Rightarrow> string option \<Rightarrow> dict \<Rightarrow> json call" where
  "remote w self action kwargs =
     call_mcp_tool w self ''remote''
       (Some (dict_unpack [(''action'', JStr (or_default action ''list''))] kwargs))"

definition fetch :: "world \<Rightarrow> client \<Rightarrow> string option \<Rightarrow> dict \<Rightarrow> json call" where
  "fetch w self remote_arg kwargs =
     call_mcp_tool w self ''fetch''
       (Some (dict_unpack [(''remote'', JStr (or_default remote_arg ''origin''))] kwargs))"

definition clone :: "world \<Rightarrow> client \<Rightarrow> string \<Rightarrow> string option \<Rightarrow> dict \<Rightarrow> json call" where
  "clone w self url directory kwargs =
     (let args = dict_unpack [(''url'', JStr url)] kwargs;
          args = (case directory of
                    None \<Rightarrow> args
                  | Some d \<Rightarrow>
                      if truthy (JStr d) then AList.update ''directory'' (JStr d) args else args)
      in call_mcp_tool w self ''clone'' (Some args))"

subsection \<open>The convenience functions\<close>

text \<open>Each makes a client with the default backend URL and calls one helper.\<close>

definition git_status_tool :: "world \<Rightarrow> string \<Rightarrow> json call" where
  "git_status_tool w dataset_path = (let client = MCPGitClient None in status w client [])"

definition git_commit_tool :: "world \<Rightarrow> string \<Rightarrow> string \<Rightarrow> json call" where
  "git_commit_tool w dataset_path message =
     (let client = MCPGitClient None in commit w client message [])"

definition git_add_tool :: "world \<Rightarrow> string \<Rightarrow> string list \<Rightarrow> json call" where
  "git_add_tool w dataset_path files = (let client = MCPGitClient None in add w client files [])"

definition git_branches_tool :: "world \<Rightarrow> string \<Rightarrow> json call" where
  "git_branches_tool w dataset_path = (let client = MCPGitClient None in branch w client [])"

definition git_history_tool :: "world \<Rightarrow> string \<Rightarrow> int option \<Rightarrow> json call" where
  "git_history_tool w dataset_path limit =
     (let client = MCPGitClient None in log_op w client (Some (or_default limit 10)) [])"

subsection \<open>Calls as data\<close>

text \<open>
  A call of a method of \<^verbatim>\<open>MCPGitClient\<close>, with its arguments: one constructor for
  each method of the class, the generic \<^verbatim>\<open>_call_mcp_tool\<close> included. \<open>invoke\<close> is
  Python's \<^verbatim>\<open>client.method(...)\<close>.
\<close>

datatype method_call =
    Call_mcp_tool string "dict option"
  | Call_status dict
  | Call_branch dict
  | Call_log "int option" dict
  | Call_diff "bool option" "int option" "int option" dict
  | Call_add "string list" dict
  | Call_commit string dict
  | Call_push "string option" "string option" "bool option" dict
  | Call_pull "string option" "string option" dict
  | Call_checkout string dict
  | Call_merge string dict
  | Call_rebase string dict
  | Call_reset "string option" dict
  | Call_stash "string option" dict
  | Call_tag string dict
  | Call_remote "string option" dict
  | Call_fetch "string option" dict
  | Call_clone string "string option" dict

fun invoke :: "world \<Rightarrow> client \<Rightarrow> method_call \<Rightarrow> json call" where
  "invoke w self (Call_mcp_tool operation args) = call_mcp_tool w self operation args"
| "invoke w self (Call_status kwargs) = status w self kwargs"
| "invoke w self (Call_branch kwargs) = branch w self kwargs"
| "invoke w self (Call_log limit kwargs) = log_op w self limit kwargs"
| "invoke w self (Call_diff staged page page_size kwargs) =
     diff w self staged page page_size kwargs"
| "invoke w self (Call_add files kwargs) = add w self files kwargs"
| "invoke w self (Call_commit message kwargs) = commit w self message kwargs"
| "invoke w self (Call_push remote_arg branch_arg force kwargs) =
     push w self remote_arg branch_arg force kwargs"
| "invoke w self (Call_pull remote_arg branch_arg kwargs) =
     pull w self remote_arg branch_arg kwargs"
| "invoke w self (Call_checkout branch_arg kwargs) = checkout w self branch_arg kwargs"
| "invoke w self (Call_merge branch_arg kwargs) = merge w self branch_arg kwargs"
| "invoke w self (Call_rebase branch_arg kwargs) = rebase w self branch_arg kwargs"
| "invoke w self (Call_reset mode kwargs) = reset w self mode kwargs"
| "invoke w self (Call_stash action kwargs) = stash w self action kwargs"
| "invoke w self (Call_tag name kwargs) = tag w self name kwargs"
| "invoke w self (Call_remote action kwargs) = remote w self action kwargs"
| "invoke w self (Call_fetch remote_arg kwargs) = fetch w self remote_arg kwargs"
| "invoke w self (Call_clone url directory kwargs) = clone w self url directory kwargs"

text \<open>A call of one of the module's convenience functions.\<close>

datatype entry_call =
    Entry_status string
  | Entry_commit string string
  | Entry_add string "string list"
  | Entry_branches string
  | Entry_history string "int option"

fun invoke_entry :: "world \<Rightarrow> entry_call \<Rightarrow> json call" where
  "invoke_entry w (Entry_status dataset_path) = git_status_tool w dataset_path"
| "invoke_entry w (Entry_commit dataset_path message) = git_commit_tool w dataset_path message"
| "invoke_entry w (Entry_add dataset_path files) = git_add_tool w dataset_path files"
| "invoke_entry w (Entry_branches dataset_path) = git_branches_tool w dataset_path"
| "invoke_entry w (Entry_history dataset_path limit) = git_history_tool w dataset_path limit"

subsection \<open>Reading a sent request\<close>

text \<open>
  What the bridge finds in a request: a member of the body, and the value under a key
  of the argument mapping at \<^verbatim>\<open>arguments.args\<close>.
\<close>

definition json_get :: "json \<Rightarrow> string \<Rightarrow> json option" where
  "json_get j k = (case j of JObj kvs \<Rightarrow> map_of kvs k | _ \<Rightarrow> None)"

definition sent_operation :: "http_request \<Rightarrow> json option" where
  "sent_operation r =
     (case json_get (req_json r) ''arguments'' of
        None \<Rightarrow> None
      | Some a \<Rightarrow> json_get a ''operation'')"

definition sent_arg :: "http_request \<Rightarrow> string \<Rightarrow> json option" where
  "sent_arg r k =
     (case json_get (req_json r) ''arguments'' of
        None \<Rightarrow> None
      | Some a \<Rightarrow> (case json_get a ''args'' of None \<Rightarrow> None | Some d \<Rightarrow> json_get d k))"

section \<open>Basic facts\<close>

lemma map_of_dict_unpack:
  "k \<notin> fst ` set kwargs \<Longrightarrow> map_of (dict_unpack base kwargs) k = map_of base k"
  unfolding dict_unpack_def
proof (induction kwargs arbitrary: base)
  case Nil
  then show ?case by simp
next
  case (Cons p kwargs)
  obtain k' v' where p: "p = (k', v')" by (cases p)
  from Cons.prems p have ne: "k' \<noteq> k" and rest: "k \<notin> fst ` set kwargs" by auto
  have "map_of (foldl (\<lambda>d (k, v). AList.update k v d) (AList.update k' v' base) kwargs) k =
        map_of (AList.update k' v' base) k"
    using Cons.IH [OF rest] .
  also have "\<dots> = map_of base k"
    using ne by (simp add: update_conv')
  finally show ?case by (simp add: p)
qed

lemma call_mcp_tool_sent:
  "snd (call_mcp_tool w self operation args sent) = sent @ [build_request self operation args]"
  by (simp add: call_mcp_tool_def Let_def)

lemma call_mcp_tool_outcome:
  "fst (call_mcp_tool w self operation args sent) =
     (case bridge w (build_request self operation args) of
        Inl e \<Rightarrow> Inl e
      | Inr response \<Rightarrow> read_response w response)"
  by (simp add: call_mcp_tool_def Let_def)

lemma build_request_context:
  "json_get (req_json (build_request self operation args)) ''context'' =
     Some (JObj [(''user_id'', JStr ''ai-tool-calling''), (''user_role'', JStr ''user'')])"
  by (simp add: build_request_def request_json_def json_get_def)

lemma build_request_operation:
  "sent_operation (build_request self operation args) = Some (JStr operation)"
  by (simp add: build_request_def request_json_def json_get_def sent_operation_def)

lemma build_request_arg:
  "sent_arg (build_request self operation (Some d)) k = map_of d k"
  by (simp add: build_request_def request_json_def json_get_def sent_arg_def)

lemma invoke_is_call:
  "\<exists>operation args. invoke w self c = call_mcp_tool w self operation args"
  by (cases c)
     (auto simp: status_def branch_def log_op_def diff_def add_def commit_def push_def
        pull_def checkout_def merge_def rebase_def reset_def stash_def tag_def remote_def
        fetch_def clone_def Let_def)

lemma invoke_entry_is_call:
  "\<exists>operation args. invoke_entry w e = call_mcp_tool w (MCPGitClient None) operation args"
  by (cases e)
     (auto simp: git_status_tool_def git_commit_tool_def git_add_tool_def
        git_branches_tool_def git_history_tool_def status_def commit_def add_def branch_def
        log_op_def Let_def)

lemma invoke_outcome:
  "fst (invoke w self c sent) =
     (case bridge w (last (snd (invoke w self c sent))) of
        Inl e \<Rightarrow> Inl e
      | Inr response \<Rightarrow> read_response w response)"
proof -
  obtain operation args where "invoke w self c = call_mcp_tool w self operation args"
    using invoke_is_call by blast
  then show ?thesis
    by (simp add: call_mcp_tool_outcome call_mcp_tool_sent)
qed

section \<open>The request a call sends\<close>

text \<open>C2: whatever the operation name and the arguments, and whatever the bridge
  answers, \<^verbatim>\<open>_call_mcp_tool\<close> adds exactly one request to the ones sent: a POST to the
  client's backend URL followed by \<^verbatim>\<open>/api/mcp-bridge/tools/call\<close>, whose JSON body
  is the envelope with tool \<^verbatim>\<open>git_tool\<close>, the operation name, the argument mapping
  (the empty mapping when none is given) and the context.\<close>

theorem call_mcp_tool_sends_one_post:
  "snd (call_mcp_tool w self operation args sent) =
     sent @ [\<lparr>req_method = ''POST'',
              req_url = backend_url self @ ''/api/mcp-bridge/tools/call'',
              req_json =
                JObj [(''tool'', JStr ''git_tool''),
                      (''arguments'',
                         JObj [(''operation'', JStr operation),
                               (''args'', JObj (case args of None \<Rightarrow> [] | Some a \<Rightarrow> a))]),
                      (''context'',
                         JObj [(''user_id'', JStr ''ai-tool-calling''),
                               (''user_role'', JStr ''user'')])],
              req_timeout = timeout self\<rparr>]"
  by (cases args) (simp_all add: call_mcp_tool_def build_request_def request_json_def Let_def)

text \<open>C3: \<^verbatim>\<open>diff(staged=True, page=2, page_size=50)\<close> with no other keyword argument
  is the generic call under operation \<^verbatim>\<open>diff\<close> with the argument mapping of exactly
  the three keys \<^verbatim>\<open>staged\<close>, \<^verbatim>\<open>page\<close> and \<^verbatim>\<open>page_size\<close>.\<close>

theorem diff_builds_exact_args:
  "diff w self (Some True) (Some 2) (Some 50) [] =
     call_mcp_tool w self ''diff''
       (Some [(''staged'', JBool True), (''page'', JInt 2), (''page_size'', JInt 50)])
   \<and> json_get (req_json (last (snd (diff w self (Some True) (Some 2) (Some 50) [] sent))))
         ''arguments'' =
       Some (JObj [(''operation'', JStr ''diff''),
                   (''args'',
                      JObj [(''staged'', JBool True), (''page'', JInt 2),
                            (''page_size'', JInt 50)])])"
  by (simp add: diff_def dict_unpack_def or_default_def call_mcp_tool_sent build_request_def
        request_json_def json_get_def)

text \<open>C6: a client is constructed with the timeout 30 (seconds), whatever backend URL
  it is given, and every call puts the client's timeout on the channel of its request;
  so every call of a freshly constructed client runs under the timeout 30.\<close>

theorem timeout_thirty_on_every_call:
  "timeout (MCPGitClient given_url) = 30
   \<and> req_timeout (last (snd (invoke w self c sent))) = timeout self
   \<and> req_timeout (last (snd (invoke w (MCPGitClient given_url) c sent))) = 30
   \<and> req_timeout (last (snd (invoke_entry w e sent))) = 30"
proof -
  have t: "timeout (MCPGitClient given_url) = 30" for given_url
    by (simp add: MCPGitClient_def)
  have call: "req_timeout (last (snd (call_mcp_tool w s operation args sent))) = timeout s"
    for s operation args
    by (simp add: call_mcp_tool_sent build_request_def)
  have inv: "req_timeout (last (snd (invoke w s c sent))) = timeout s" for s
    using invoke_is_call [of w s c] call by auto
  have ent: "req_timeout (last (snd (invoke_entry w e sent))) = 30"
    using invoke_entry_is_call [of w e] call t by auto
  show ?thesis using t inv ent by simp
qed

text \<open>C7: each convenience function is one call of one helper on a client with the
  default backend URL (\<^verbatim>\<open>status\<close>, \<^verbatim>\<open>commit(message)\<close>, \<^verbatim>\<open>add(files)\<close>,
  \<^verbatim>\<open>branch\<close>, \<^verbatim>\<open>log(limit=limit)\<close>, with no extra keyword argument), and the
  \<^verbatim>\<open>dataset_path\<close> it is given changes nothing: outcome and requests sent are the same
  for any two values of it.\<close>

theorem convenience_pass_through:
  "git_status_tool w d = status w (MCPGitClient None) []
   \<and> git_commit_tool w d message = commit w (MCPGitClient None) message []
   \<and> git_add_tool w d files = add w (MCPGitClient None) files []
   \<and> git_branches_tool w d = branch w (MCPGitClient None) []
   \<and> git_history_tool w d limit = log_op w (MCPGitClient None) (Some (or_default limit 10)) []
   \<and> git_status_tool w d = git_status_tool w d'
   \<and> git_commit_tool w d message = git_commit_tool w d' message
   \<and> git_add_tool w d files = git_add_tool w d' files
   \<and> git_branches_tool w d = git_branches_tool w d'
   \<and> git_history_tool w d limit = git_history_tool w d' limit"
  by (simp add: git_status_tool_def git_commit_tool_def git_add_tool_def
        git_branches_tool_def git_history_tool_def)

text \<open>C8: every call of every method of the client, and of every convenience function,
  sends one request, and the body of that request has under \<^verbatim>\<open>context\<close> the constant
  mapping of \<^verbatim>\<open>user_id\<close> to \<^verbatim>\<open>ai-tool-calling\<close> and \<^verbatim>\<open>user_role\<close> to \<^verbatim>\<open>user\<close>,
  whatever arguments the caller passes.\<close>

theorem context_is_constant:
  "(\<exists>r. snd (invoke w self c sent) = sent @ [r]
        \<and> json_get (req_json r) ''context'' =
            Some (JObj [(''user_id'', JStr ''ai-tool-calling''), (''user_role'', JStr ''user'')]))
   \<and> (\<exists>r. snd (invoke_entry w e sent) = sent @ [r]
        \<and> json_get (req_json r) ''context'' =
            Some (JObj [(''user_id'', JStr ''ai-tool-calling''), (''user_role'', JStr ''user'')]))"
proof -
  obtain operation args where "invoke w self c = call_mcp_tool w self operation args"
    using invoke_is_call by blast
  then have a: "snd (invoke w self c sent) = sent @ [build_request self operation args]"
    by (simp add: call_mcp_tool_sent)
  obtain operation' args' where
    "invoke_entry w e = call_mcp_tool w (MCPGitClient None) operation' args'"
    using invoke_entry_is_call by blast
  then have b: "snd (invoke_entry w e sent) =
      sent @ [build_request (MCPGitClient None) operation' args']"
    by (simp add: call_mcp_tool_sent)
  show ?thesis
    using a b build_request_context by blast
qed

section \<open>The argument mapping of a helper\<close>

text \<open>
  In the theorems below \<open>kwargs\<close> does not hold a key that is the name of a parameter
  of the method: Python binds such a keyword argument to the parameter, and never
  collects it in \<^verbatim>\<open>**kwargs\<close>.
\<close>

text \<open>C4, as amended: the request \<^verbatim>\<open>push\<close> sends has no \<^verbatim>\<open>branch\<close> key in its
  argument mapping when \<^verbatim>\<open>branch\<close> is \<^verbatim>\<open>None\<close>, and has the key with the given value
  when the branch given is a non-empty string; in every case \<^verbatim>\<open>push\<close> is the generic
  call under operation \<^verbatim>\<open>push\<close>.\<close>

theorem push_branch_key:
  assumes "''branch'' \<notin> fst ` set kwargs"
  shows "sent_arg (last (snd (push w self remote_arg None force kwargs sent))) ''branch'' = None
       \<and> (b \<noteq> [] \<longrightarrow>
            sent_arg (last (snd (push w self remote_arg (Some b) force kwargs sent))) ''branch''
              = Some (JStr b))
       \<and> sent_operation (last (snd (push w self remote_arg branch_arg force kwargs sent)))
           = Some (JStr ''push'')
       \<and> (\<exists>args. push w self remote_arg branch_arg force kwargs
                    = call_mcp_tool w self ''push'' (Some args))"
  using assms
  by (auto simp: push_def Let_def call_mcp_tool_sent build_request_arg build_request_operation
        map_of_dict_unpack update_conv' split: option.splits)

text \<open>The amended C4 at \<^verbatim>\<open>push(tags=True)\<close> and \<^verbatim>\<open>push(branch="main", tags=True)\<close>.\<close>

theorem push_branch_key_witness:
  "sent_arg
     (last (snd (push \<lparr>bridge = (\<lambda>r. Inl (TransportError [])), py_repr = (\<lambda>v. [])\<rparr>
                   (MCPGitClient None) None None None [(''tags'', JBool True)] [])))
     ''branch'' = None
   \<and> sent_arg
     (last (snd (push \<lparr>bridge = (\<lambda>r. Inl (TransportError [])), py_repr = (\<lambda>v. [])\<rparr>
                   (MCPGitClient None) None (Some ''main'') None [(''tags'', JBool True)] [])))
     ''branch'' = Some (JStr ''main'')"
  using push_branch_key [of "[(''tags'', JBool True)]"
      "\<lparr>bridge = (\<lambda>r. Inl (TransportError [])), py_repr = (\<lambda>v. [])\<rparr>"
      "MCPGitClient None" None None "[]" "''main''"]
  by simp

text \<open>C4 as stated fails: \<^verbatim>\<open>push(branch="")\<close> is given a branch, and the argument
  mapping it sends does not hold the key \<^verbatim>\<open>branch\<close> with that value.\<close>

theorem push_branch_counterexample:
  "sent_arg
     (last (snd (push \<lparr>bridge = (\<lambda>r. Inl (TransportError [])), py_repr = (\<lambda>v. [])\<rparr>
                   (MCPGitClient None) None (Some []) None [] [])))
     ''branch'' \<noteq> Some (JStr [])"
  by (simp add: push_def Let_def call_mcp_tool_sent build_request_arg dict_unpack_def)

text \<open>C5: with the parameter left out, \<^verbatim>\<open>push\<close>, \<^verbatim>\<open>pull\<close> and \<^verbatim>\<open>fetch\<close> send
  \<^verbatim>\<open>origin\<close> under \<^verbatim>\<open>remote\<close>, \<^verbatim>\<open>reset\<close> sends \<^verbatim>\<open>mixed\<close> under \<^verbatim>\<open>mode\<close>,
  \<^verbatim>\<open>stash\<close> sends \<^verbatim>\<open>push\<close> and \<^verbatim>\<open>remote\<close> sends \<^verbatim>\<open>list\<close> under \<^verbatim>\<open>action\<close>,
  in the argument mapping of the request that reaches the bridge.\<close>

theorem helper_defaults:
  "(''remote'' \<notin> fst ` set kwargs \<longrightarrow>
      sent_arg (last (snd (push w self None branch_arg force kwargs sent))) ''remote''
        = Some (JStr ''origin'')
    \<and> sent_arg (last (snd (pull w self None branch_arg kwargs sent))) ''remote''
        = Some (JStr ''origin'')
    \<and> sent_arg (last (snd (fetch w self None kwargs sent))) ''remote''
        = Some (JStr ''origin''))
   \<and> (''mode'' \<notin> fst ` set kwargs \<longrightarrow>
      sent_arg (last (snd (reset w self None kwargs sent))) ''mode'' = Some (JStr ''mixed''))
   \<and> (''action'' \<notin> fst ` set kwargs \<longrightarrow>
      sent_arg (last (snd (stash w self None kwargs sent))) ''action'' = Some (JStr ''push'')
    \<and> sent_arg (last (snd (remote w self None kwargs sent))) ''action''
        = Some (JStr ''list''))"
  by (auto simp: push_def pull_def fetch_def reset_def stash_def remote_def Let_def
        or_default_def call_mcp_tool_sent build_request_arg map_of_dict_unpack update_conv'
        split: option.splits)

text \<open>C5 at \<^verbatim>\<open>push(branch="main", force=True, tags=True)\<close>, \<^verbatim>\<open>reset(tags=True)\<close>
  and \<^verbatim>\<open>remote(tags=True)\<close>.\<close>

theorem helper_defaults_witness:
  "sent_arg
     (last (snd (push \<lparr>bridge = (\<lambda>r. Inl (TransportError [])), py_repr = (\<lambda>v. [])\<rparr>
                   (MCPGitClient None) None (Some ''main'') (Some True)
                   [(''tags'', JBool True)] [])))
     ''remote'' = Some (JStr ''origin'')
   \<and> sent_arg
     (last (snd (reset \<lparr>bridge = (\<lambda>r. Inl (TransportError [])), py_repr = (\<lambda>v. [])\<rparr>
                   (MCPGitClient None) None [(''tags'', JBool True)] [])))
     ''mode'' = Some (JStr ''mixed'')
   \<and> sent_arg
     (last (snd (remote \<lparr>bridge = (\<lambda>r. Inl (TransportError [])), py_repr = (\<lambda>v. [])\<rparr>
                   (MCPGitClient None) None [(''tags'', JBool True)] [])))
     ''action'' = Some (JStr ''list'')"
proof -
  have keys: "''remote'' \<notin> fst ` set [(''tags'', JBool True)]"
    "''mode'' \<notin> fst ` set [(''tags'', JBool True)]"
    "''action'' \<notin> fst ` set [(''tags'', JBool True)]"
    by simp_all
  from keys helper_defaults [of "[(''tags'', JBool True)]"
      "\<lparr>bridge = (\<lambda>r. Inl (TransportError [])), py_repr = (\<lambda>v. [])\<rparr>"
      "MCPGitClient None" "Some ''main''" "Some True" "[]"]
  show ?thesis by blast
qed

text \<open>C9: the empty string is treated as \<^verbatim>\<open>None\<close> is: \<^verbatim>\<open>push\<close> and \<^verbatim>\<open>pull\<close> with
  \<^verbatim>\<open>branch=""\<close>, and \<^verbatim>\<open>clone\<close> with \<^verbatim>\<open>directory=""\<close>, do what they do with
  \<^verbatim>\<open>None\<close>, and the argument mapping they send has no \<^verbatim>\<open>branch\<close> key,
  respectively no \<^verbatim>\<open>directory\<close> key.\<close>

theorem empty_string_omits_key:
  "push w self remote_arg (Some []) force kwargs = push w self remote_arg None force kwargs
   \<and> pull w self remote_arg (Some []) kwargs = pull w self remote_arg None kwargs
   \<and> clone w self url (Some []) kwargs = clone w self url None kwargs
   \<and> (''branch'' \<notin> fst ` set kwargs \<longrightarrow>
        sent_arg (last (snd (push w self remote_arg (Some []) force kwargs sent))) ''branch''
          = None
      \<and> sent_arg (last (snd (pull w self remote_arg (Some []) kwargs sent))) ''branch'' = None)
   \<and> (''directory'' \<notin> fst ` set kwargs \<longrightarrow>
        sent_arg (last (snd (clone w self url (Some []) kwargs sent))) ''directory'' = None)"
  by (auto simp: push_def pull_def clone_def Let_def call_mcp_tool_sent build_request_arg
        map_of_dict_unpack)

text \<open>C9 at \<^verbatim>\<open>push(remote="upstream", branch="", tags=True)\<close> and
  \<^verbatim>\<open>clone("https://example.org/r.git", directory="", tags=True)\<close>.\<close>

theorem empty_string_omits_key_witness:
  "sent_arg
     (last (snd (push \<lparr>bridge = (\<lambda>r. Inl (TransportError [])), py_repr = (\<lambda>v. [])\<rparr>
                   (MCPGitClient None) (Some ''upstream'') (Some []) None
                   [(''tags'', JBool True)] [])))
     ''branch'' = None
   \<and> sent_arg
     (last (snd (clone \<lparr>bridge = (\<lambda>r. Inl (TransportError [])), py_repr = (\<lambda>v. [])\<rparr>
                   (MCPGitClient None) ''https://example.org/r.git'' (Some [])
                   [(''tags'', JBool True)] [])))
     ''directory'' = None"
proof -
  have keys: "''branch'' \<notin> fst ` set [(''tags'', JBool True)]"
    "''directory'' \<notin> fst ` set [(''tags'', JBool True)]"
    by simp_all
  from keys empty_string_omits_key [of
      "\<lparr>bridge = (\<lambda>r. Inl (TransportError [])), py_repr = (\<lambda>v. [])\<rparr>"
      "MCPGitClient None" "Some ''upstream''" None "[(''tags'', JBool True)]"
      "''https://example.org/r.git''" "[]"]
  show ?thesis by blast
qed

section \<open>The outcome of a call\<close>

text \<open>C1: for every call of a method of the client, when the bridge answers the request
  with a status other than 200 the call raises \<^verbatim>\<open>Exception\<close> with the message
  \<^verbatim>\<open>MCP bridge returned\<close>, the status and the text of the response; when it answers
  200 with a body whose \<^verbatim>\<open>success\<close> is not truthy the call raises the same
  \<^verbatim>\<open>Exception\<close> with the message \<^verbatim>\<open>MCP tool call failed:\<close> and the body's
  \<^verbatim>\<open>error\<close>, so an error string such as \<^verbatim>\<open>conflict\<close> is in the message. Both
  failures are the one exception class, and neither returns a value.\<close>

theorem failure_raises_exception:
  assumes "bridge w (last (snd (invoke w self c sent))) = Inr response"
  shows "(status_code response \<noteq> 200 \<longrightarrow>
            fst (invoke w self c sent) =
              Inl (PyException
                     (''MCP bridge returned '' @ str_int (status_code response) @ '': ''
                        @ body_text response)))
       \<and> (status_code response = 200 \<and> body_json response = Some (JObj body)
            \<and> \<not> truthy (dict_get body ''success'' (JBool False)) \<longrightarrow>
            fst (invoke w self c sent) =
              Inl (PyException
                     (''MCP tool call failed: ''
                        @ py_str (py_repr w) (dict_get body ''error'' (JStr ''Unknown error'')))))
       \<and> (status_code response = 200 \<and> body_json response = Some (JObj body)
            \<and> map_of body ''success'' = Some (JBool False)
            \<and> map_of body ''error'' = Some (JStr e) \<longrightarrow>
            fst (invoke w self c sent) = Inl (PyException (''MCP tool call failed: '' @ e)))"
  using assms
  by (simp add: invoke_outcome read_response_def dict_get_def)

text \<open>C1 at a 503 answer to \<^verbatim>\<open>status()\<close> and at the answer
  \<^verbatim>\<open>{"success": false, "error": "conflict"}\<close> to \<^verbatim>\<open>commit("fix")\<close>.\<close>

theorem failure_raises_exception_witness:
  "fst (invoke
          \<lparr>bridge = (\<lambda>r. Inr \<lparr>status_code = 503, body_text = ''Service Unavailable'',
                               body_json = None\<rparr>),
           py_repr = (\<lambda>v. [])\<rparr>
          (MCPGitClient None) (Call_status []) [])
     = Inl (PyException ''MCP bridge returned 503: Service Unavailable'')
   \<and> fst (invoke
          \<lparr>bridge = (\<lambda>r. Inr \<lparr>status_code = 200, body_text = [],
                               body_json = Some (JObj [(''success'', JBool False),
                                                       (''error'', JStr ''conflict'')])\<rparr>),
           py_repr = (\<lambda>v. [])\<rparr>
          (MCPGitClient None) (Call_commit ''fix'' []) [])
     = Inl (PyException ''MCP tool call failed: conflict'')"
proof -
  have s: "str_int 503 = ''503''"
    unfolding str_int_def
    by (simp add: str_nat.simps [of 503] str_nat.simps [of 50] str_nat.simps [of 5])
  have a: "bridge \<lparr>bridge = (\<lambda>r. Inr \<lparr>status_code = 503, body_text = ''Service Unavailable'',
                               body_json = None\<rparr>),
           py_repr = (\<lambda>v. [])\<rparr> x = Inr \<lparr>status_code = 503, body_text = ''Service Unavailable'',
                               body_json = None\<rparr>" for x
    by simp
  have b: "bridge \<lparr>bridge = (\<lambda>r. Inr \<lparr>status_code = 200, body_text = [],
                               body_json = Some (JObj [(''success'', JBool False),
                                                       (''error'', JStr ''conflict'')])\<rparr>),
           py_repr = (\<lambda>v. [])\<rparr> x = Inr \<lparr>status_code = 200, body_text = [],
                               body_json = Some (JObj [(''success'', JBool False),
                                                       (''error'', JStr ''conflict'')])\<rparr>" for x
    by simp
  show ?thesis
    using failure_raises_exception [OF a, of "MCPGitClient None" "Call_status []" "[]" "[]" "[]"]
      failure_raises_exception [OF b, of "MCPGitClient None" "Call_commit ''fix'' []" "[]"
        "[(''success'', JBool False), (''error'', JStr ''conflict'')]" "''conflict''"]
    by (simp add: s)
qed

text \<open>C10: when the bridge answers 200 with a body that parses to \<open>r\<close>, the call
  returns a value exactly when \<open>r\<close> is a mapping whose \<^verbatim>\<open>success\<close> key is present
  with a truthy value; the value returned is then the one under \<^verbatim>\<open>result\<close>, or the
  empty mapping when that key is absent; and a mapping with no \<^verbatim>\<open>success\<close> key
  makes the call raise.\<close>

theorem success_decides_return:
  assumes "bridge w (build_request self operation args) = Inr response"
      and "status_code response = 200"
      and "body_json response = Some r"
  shows "((\<exists>v. fst (call_mcp_tool w self operation args sent) = Inr v) \<longleftrightarrow>
            (\<exists>b v. r = JObj b \<and> map_of b ''success'' = Some v \<and> truthy v))
       \<and> (\<forall>b v. r = JObj b \<and> map_of b ''success'' = Some v \<and> truthy v \<longrightarrow>
            fst (call_mcp_tool w self operation args sent) =
              Inr (case map_of b ''result'' of None \<Rightarrow> JObj [] | Some x \<Rightarrow> x))
       \<and> (\<forall>b. r = JObj b \<and> map_of b ''success'' = None \<longrightarrow>
            fst (call_mcp_tool w self operation args sent) =
              Inl (PyException
                     (''MCP tool call failed: ''
                        @ py_str (py_repr w) (dict_get b ''error'' (JStr ''Unknown error'')))))"
  using assms
  by (cases r)
     (auto simp: call_mcp_tool_outcome read_response_def dict_get_def split: option.splits)

text \<open>C10 at the bodies \<^verbatim>\<open>{"success": true, "result": {"branch": "main"}}\<close> and
  \<^verbatim>\<open>{"result": {}}\<close>.\<close>

theorem success_decides_return_witness:
  "fst (call_mcp_tool
          \<lparr>bridge = (\<lambda>q. Inr \<lparr>status_code = 200, body_text = [],
                               body_json = Some (JObj [(''success'', JBool True),
                                                       (''result'',
                                                        JObj [(''branch'', JStr ''main'')])])\<rparr>),
           py_repr = (\<lambda>v. [])\<rparr>
          (MCPGitClient None) ''status'' None [])
     = Inr (JObj [(''branch'', JStr ''main'')])
   \<and> fst (call_mcp_tool
          \<lparr>bridge = (\<lambda>q. Inr \<lparr>status_code = 200, body_text = [],
                               body_json = Some (JObj [(''result'', JObj [])])\<rparr>),
           py_repr = (\<lambda>v. [])\<rparr>
          (MCPGitClient None) ''status'' None [])
     = Inl (PyException ''MCP tool call failed: Unknown error'')"
proof -
  let ?r1 = "\<lparr>status_code = 200, body_text = [],
              body_json = Some (JObj [(''success'', JBool True),
                                      (''result'', JObj [(''branch'', JStr ''main'')])])\<rparr>"
  let ?r2 = "\<lparr>status_code = 200, body_text = [],
              body_json = Some (JObj [(''result'', JObj [])])\<rparr>"
  let ?w1 = "\<lparr>bridge = (\<lambda>q. Inr ?r1), py_repr = (\<lambda>v. [])\<rparr>"
  let ?w2 = "\<lparr>bridge = (\<lambda>q. Inr ?r2), py_repr = (\<lambda>v. [])\<rparr>"
  have a: "bridge ?w1 (build_request (MCPGitClient None) ''status'' None) = Inr ?r1"
    by simp
  have b: "bridge ?w2 (build_request (MCPGitClient None) ''status'' None) = Inr ?r2"
    by simp
  have c: "status_code ?r1 = 200" "status_code ?r2 = 200"
    by simp_all
  have d: "body_json ?r1 = Some (JObj [(''success'', JBool True),
                                      (''result'', JObj [(''branch'', JStr ''main'')])])"
    "body_json ?r2 = Some (JObj [(''result'', JObj [])])"
    by simp_all
  show ?thesis
    using success_decides_return [OF a c(1) d(1), of "[]"]
      success_decides_return [OF b c(2) d(2), of "[]"]
    by (simp add: dict_get_def)
qed

end
